theory Spec2Isabelle
  imports Complex_Main
begin

section \<open>Numbers and their decimal rendering\<close>

text \<open>
  The page computes with JavaScript numbers that are either whole (epoch milliseconds and
  their differences, quotients taken through \<^verbatim>\<open>Math.floor\<close>) or \<^verbatim>\<open>NaN\<close> (the
  time value of an invalid \<^verbatim>\<open>Date\<close>). Such a number is an \<open>int option\<close> here, with
  \<open>None\<close> for \<^verbatim>\<open>NaN\<close>. Time values are bounded by 8.64e15 in absolute value, so every
  difference below 2^53 is exact in a double and integer arithmetic agrees with the
  source wherever a branch other than the absolute rendering is taken.
\<close>

type_synonym jsnum = "int option"

definition digit_char :: "nat \<Rightarrow> char" where
  "digit_char d = char_of (48 + d)"

fun digits :: "nat \<Rightarrow> string" where
  "digits n = (if n < 10 then [digit_char n] else digits (n div 10) @ [digit_char (n mod 10)])"

declare digits.simps [simp del]

text \<open>The value of a digit, and of a string of digits read from the left.\<close>

definition digit_value :: "char \<Rightarrow> nat" where
  "digit_value c = of_char c - 48"

definition digits_value :: "string \<Rightarrow> nat" where
  "digits_value ds = foldl (\<lambda>acc c. 10 * acc + digit_value c) 0 ds"

text \<open>\<^verbatim>\<open>Number.prototype.toString\<close> (and template interpolation) of a whole number.\<close>

definition int_toString :: "int \<Rightarrow> string" where
  "int_toString i = (if i < 0 then CHR ''-'' # digits (nat (- i)) else digits (nat i))"

definition num_toString :: "jsnum \<Rightarrow> string" where
  "num_toString x = (case x of None \<Rightarrow> ''NaN'' | Some i \<Rightarrow> int_toString i)"

text \<open>\<^verbatim>\<open>a - b\<close>, \<^verbatim>\<open>a < b\<close>, \<^verbatim>\<open>Math.floor(a / k)\<close> and \<^verbatim>\<open>a % k\<close> for a positive
  constant \<open>k\<close>: every operation on \<^verbatim>\<open>NaN\<close> gives \<^verbatim>\<open>NaN\<close>, every comparison with it is
  false, and \<^verbatim>\<open>%\<close> takes the sign of the dividend.\<close>

definition num_sub :: "jsnum \<Rightarrow> jsnum \<Rightarrow> jsnum" where
  "num_sub a b = (case (a, b) of (Some x, Some y) \<Rightarrow> Some (x - y) | _ \<Rightarrow> None)"

definition num_lt :: "jsnum \<Rightarrow> int \<Rightarrow> bool" where
  "num_lt a k = (case a of None \<Rightarrow> False | Some x \<Rightarrow> x < k)"

definition num_floor_div :: "jsnum \<Rightarrow> int \<Rightarrow> jsnum" where
  "num_floor_div a k = (case a of None \<Rightarrow> None | Some x \<Rightarrow> Some (x div k))"

definition num_rem :: "jsnum \<Rightarrow> int \<Rightarrow> jsnum" where
  "num_rem a k = (case a of None \<Rightarrow> None
                  | Some x \<Rightarrow> Some (if x < 0 then - ((- x) mod k) else x mod k))"

section \<open>Relative time formatter\<close>

text \<open>
  \<^verbatim>\<open>formatNextRun\<close> of \<^verbatim>\<open>src/app/page.tsx\<close>. What the platform supplies is a
  parameter: \<open>date_parse\<close> is the time value of \<^verbatim>\<open>new Date(s)\<close> (\<open>None\<close> when the
  string does not parse: the constructor never throws, it builds an invalid date),
  \<open>locale_string\<close> is \<^verbatim>\<open>toLocaleString('en-US', options)\<close> on a valid date, and
  \<open>now\<close> is the clock reading of \<^verbatim>\<open>new Date()\<close>. The argument is \<open>None\<close> for
  \<^verbatim>\<open>null\<close> and \<^verbatim>\<open>undefined\<close>; \<^verbatim>\<open>!isoString\<close> also holds of the empty string.
\<close>

definition date_toLocaleString :: "(int \<Rightarrow> string) \<Rightarrow> jsnum \<Rightarrow> string" where
  "date_toLocaleString locale_string tv =
     (case tv of None \<Rightarrow> ''Invalid Date'' | Some t \<Rightarrow> locale_string t)"

definition formatNextRun ::
  "(string \<Rightarrow> jsnum) \<Rightarrow> (int \<Rightarrow> string) \<Rightarrow> int \<Rightarrow> string option \<Rightarrow> string" where
  "formatNextRun date_parse locale_string now isoString =
     (case isoString of
        None \<Rightarrow> ''Not scheduled''
      | Some s \<Rightarrow>
          if s = [] then ''Not scheduled''
          else
            let date = date_parse s;
                diffMs = num_sub date (Some now)
            in if num_lt diffMs 0 then ''Past due''
               else
                 let diffHours = num_floor_div diffMs (1000 * 60 * 60);
                     diffMins = num_floor_div (num_rem diffMs (1000 * 60 * 60)) (1000 * 60)
                 in if num_lt diffHours 1 then
                      ''In '' @ num_toString diffMins @ '' minute''
                        @ (if diffMins \<noteq> Some 1 then ''s'' else '''')
                    else if num_lt diffHours 24 then
                      ''In '' @ num_toString diffHours @ '' hour''
                        @ (if diffHours \<noteq> Some 1 then ''s'' else '''')
                    else date_toLocaleString locale_string date)"

text \<open>
  The \<^verbatim>\<open>catch\<close> clause of the source (\<^verbatim>\<open>return 'Invalid date'\<close>) has no branch
  here: nothing in the \<^verbatim>\<open>try\<close> block throws on a string argument, a fixed locale
  and fixed options.
\<close>

section \<open>JSON values and the browser's store\<close>

text \<open>
  What \<^verbatim>\<open>JSON.parse\<close> returns, and so what the component state holds at run time
  whatever the declared TypeScript types say. A number is a double: a finite one is a
  rational, and a literal beyond the range parses to an infinity. An object is the list
  of its own properties, with distinct keys.
\<close>

datatype jsdouble = Finite rat | PosInfinity | NegInfinity

datatype jsval =
    JNull
  | JBool bool
  | JNumber jsdouble
  | JString string
  | JArray "jsval list"
  | JObject "(string \<times> jsval) list"

text \<open>Truthiness, as \<^verbatim>\<open>if (v)\<close>, \<^verbatim>\<open>v && w\<close> and \<^verbatim>\<open>v || w\<close> test it.\<close>

fun truthy :: "jsval \<Rightarrow> bool" where
  "truthy JNull = False"
| "truthy (JBool b) = b"
| "truthy (JNumber (Finite q)) = (q \<noteq> 0)"
| "truthy (JNumber PosInfinity) = True"
| "truthy (JNumber NegInfinity) = True"
| "truthy (JString s) = (s \<noteq> [])"
| "truthy (JArray xs) = True"
| "truthy (JObject kvs) = True"

text \<open>
  Reading a property \<^verbatim>\<open>v.k\<close> of a value other than \<^verbatim>\<open>null\<close>; \<open>None\<close> is
  \<^verbatim>\<open>undefined\<close>. The keys the page reads (\<^verbatim>\<open>result\<close>, \<^verbatim>\<open>categories\<close>,
  \<^verbatim>\<open>digest_date\<close>, \<^verbatim>\<open>slackChannel\<close>, \<^verbatim>\<open>deliveryTime\<close>, \<^verbatim>\<open>timezone\<close>) are no
  properties of strings, numbers, booleans or arrays. Reading a property of \<^verbatim>\<open>null\<close>
  throws a \<^verbatim>\<open>TypeError\<close>: each caller below has a branch for it.
\<close>

fun get_prop :: "jsval \<Rightarrow> string \<Rightarrow> jsval option" where
  "get_prop (JObject kvs) k = map_of kvs k"
| "get_prop v k = None"

text \<open>\<^verbatim>\<open>v.k || d\<close>\<close>

definition js_or :: "jsval option \<Rightarrow> jsval \<Rightarrow> jsval" where
  "js_or v d = (case v of None \<Rightarrow> d | Some x \<Rightarrow> if truthy x then x else d)"

text \<open>\<^verbatim>\<open>Array.isArray(v.k)\<close>\<close>

fun isArray :: "jsval option \<Rightarrow> bool" where
  "isArray (Some (JArray xs)) = True"
| "isArray v = False"

text \<open>
  \<^verbatim>\<open>JSON.parse(JSON.stringify(v))\<close>: the text itself is not modelled, only the value
  it parses back to. An infinity is written as \<^verbatim>\<open>null\<close>; everything else comes back
  as it was.
\<close>

fun reparse :: "jsval \<Rightarrow> jsval" where
  "reparse JNull = JNull"
| "reparse (JBool b) = JBool b"
| "reparse (JNumber (Finite q)) = JNumber (Finite q)"
| "reparse (JNumber PosInfinity) = JNull"
| "reparse (JNumber NegInfinity) = JNull"
| "reparse (JString s) = JString s"
| "reparse (JArray xs) = JArray (map reparse xs)"
| "reparse (JObject kvs) = JObject (map (\<lambda>(k, v). (k, reparse v)) kvs)"

text \<open>
  An item of \<^verbatim>\<open>localStorage\<close> is a string; the page only ever tests it for
  emptiness and hands it to \<^verbatim>\<open>JSON.parse\<close>, so an item is modelled by what parsing
  it gives: \<open>Unparsable\<close> (the empty string included: the page skips it, and parsing
  it would throw all the same) or the parsed value.
\<close>

datatype item = Unparsable | Parses jsval

type_synonym storage = "string \<Rightarrow> item option"

text \<open>What a \<^verbatim>\<open>catch\<close> clause receives: an \<^verbatim>\<open>Error\<close> with its message, or any
  other thrown value.\<close>

datatype thrown = Error string | NonError

section \<open>The Home component: history and the digest fetch\<close>

text \<open>
  The part of the state of \<^verbatim>\<open>Home\<close> that \<^verbatim>\<open>loadHistory\<close>, \<^verbatim>\<open>saveToHistory\<close> and
  \<^verbatim>\<open>fetchNews\<close> read and write, together with the browser's store. The history is
  whatever array was parsed from the store, extended by the entries built here.
\<close>

record world =
  loading :: bool
  statusMessage :: string
  digest :: "jsval option"
  history :: "jsval list"
  localStorage :: storage

text \<open>The initial values of the \<^verbatim>\<open>useState\<close> calls, over a given store.\<close>

definition initial_world :: "storage \<Rightarrow> world" where
  "initial_world store =
     \<lparr>loading = False, statusMessage = '''', digest = None, history = [], localStorage = store\<rparr>"

definition history_key :: string where
  "history_key = ''ai-news-digest-history''"

definition loadHistory :: "world \<Rightarrow> world" where
  "loadHistory w =
     (case localStorage w history_key of
        Some (Parses (JArray parsed)) \<Rightarrow> w\<lparr>history := parsed\<rparr>
      | _ \<Rightarrow> w)"

text \<open>
  What one call of \<^verbatim>\<open>saveToHistory\<close> reads from its environment: the two readings
  of \<^verbatim>\<open>Date.now()\<close> (for the id and for the timestamp), the text of
  \<^verbatim>\<open>new Date().toLocaleDateString()\<close>, and whether \<^verbatim>\<open>localStorage.setItem\<close>
  throws (a full quota, a disabled store).
\<close>

record tick =
  id_ms :: int
  locale_date :: string
  ts_ms :: int
  setItem_throws :: "thrown option"

definition newItem :: "tick \<Rightarrow> jsval \<Rightarrow> jsval" where
  "newItem env digestData =
     JObject
       [(''id'', JString (int_toString (id_ms env))),
        (''date'', js_or (get_prop digestData ''digest_date'') (JString (locale_date env))),
        (''data'', digestData),
        (''timestamp'', JNumber (Finite (of_int (ts_ms env))))]"

text \<open>
  \<^verbatim>\<open>saveToHistory\<close> returns nothing: its result is the new state, and the value thrown
  if it does not complete. \<^verbatim>\<open>setHistory\<close> runs before \<^verbatim>\<open>setItem\<close>, so a failed
  write leaves the in-memory list updated and the store as it was. \<open>history w\<close> is the
  list the calling render saw; calls made one fetch after the other each see the list
  the previous one set.
\<close>

definition saveToHistory :: "tick \<Rightarrow> jsval \<Rightarrow> world \<Rightarrow> world \<times> thrown option" where
  "saveToHistory env digestData w =
     (if digestData = JNull then (w, Some (Error ''TypeError''))
      else
        let updated = take 20 (newItem env digestData # history w);
            w' = w\<lparr>history := updated\<rparr>
        in case setItem_throws env of
             Some e \<Rightarrow> (w', Some e)
           | None \<Rightarrow>
               (w'\<lparr>localStorage :=
                     (localStorage w)(history_key \<mapsto> Parses (reparse (JArray updated)))\<rparr>,
                None))"

text \<open>
  Calls made one after the other, each by a fetch of its own and each on the state the
  previous one left, whether or not it completed; and the sequences in which every
  call completes.
\<close>

fun saveToHistory_seq :: "(tick \<times> jsval) list \<Rightarrow> world \<Rightarrow> world" where
  "saveToHistory_seq [] w = w"
| "saveToHistory_seq ((env, digestData) # calls) w =
     saveToHistory_seq calls (fst (saveToHistory env digestData w))"

fun all_succeed :: "(tick \<times> jsval) list \<Rightarrow> world \<Rightarrow> bool" where
  "all_succeed [] w = True"
| "all_succeed ((env, digestData) # calls) w =
     (snd (saveToHistory env digestData w) = None
      \<and> all_succeed calls (fst (saveToHistory env digestData w)))"

text \<open>
  The Unicode marks that open a status message, as their UTF-8 bytes.
\<close>

definition check_mark :: string where
  "check_mark = [CHR 0xE2, CHR 0x9C, CHR 0x93]"

definition cross_mark :: string where
  "cross_mark = [CHR 0xE2, CHR 0x9C, CHR 0x97]"

text \<open>
  The answer of \<^verbatim>\<open>callAIAgent\<close>, as \<^verbatim>\<open>fetchNews\<close> reads it: the gateway either
  throws or returns \<^verbatim>\<open>{success, response?, error?}\<close>.
\<close>

record agent_result =
  success :: bool
  response :: "jsval option"
  error :: "string option"

datatype agent_outcome = Returns agent_result | Throws thrown

text \<open>\<^verbatim>\<open>result.response?.result\<close>\<close>

definition response_result :: "agent_result \<Rightarrow> jsval option" where
  "response_result r =
     (case response r of None \<Rightarrow> None | Some JNull \<Rightarrow> None | Some v \<Rightarrow> get_prop v ''result'')"

text \<open>\<^verbatim>\<open>error instanceof Error ? error.message : 'Unknown error'\<close>\<close>

definition thrown_message :: "thrown \<Rightarrow> string" where
  "thrown_message e = (case e of Error m \<Rightarrow> m | NonError \<Rightarrow> ''Unknown error'')"

definition catch_status :: "thrown \<Rightarrow> world \<Rightarrow> world" where
  "catch_status e w = w\<lparr>statusMessage := cross_mark @ '' Error: '' @ thrown_message e\<rparr>"

text \<open>\<^verbatim>\<open>'... Failed to fetch news: ' + (result.error || 'Unknown error')\<close>\<close>

definition failed_status :: "agent_result \<Rightarrow> world \<Rightarrow> world" where
  "failed_status result w =
     w\<lparr>statusMessage :=
         cross_mark @ '' Failed to fetch news: ''
           @ (case error result of
                None \<Rightarrow> ''Unknown error''
              | Some m \<Rightarrow> if m \<noteq> [] then m else ''Unknown error'')\<rparr>"

definition fetchNews :: "agent_outcome \<Rightarrow> tick \<Rightarrow> world \<Rightarrow> world" where
  "fetchNews outcome env w0 =
     (let w = w0\<lparr>loading := True, statusMessage := ''''\<rparr>;
          w' =
            (case outcome of
               Throws e \<Rightarrow> catch_status e w
             | Returns result \<Rightarrow>
                 (case (if success result then response_result result else None) of
                    Some digestData \<Rightarrow>
                      if truthy digestData then
                        if isArray (get_prop digestData ''categories'') then
                          (case saveToHistory env digestData (w\<lparr>digest := Some digestData\<rparr>) of
                             (w1, None) \<Rightarrow>
                               w1\<lparr>statusMessage :=
                                     check_mark @ '' News digest fetched successfully''\<rparr>
                           | (w1, Some e) \<Rightarrow> catch_status e w1)
                        else w\<lparr>statusMessage := cross_mark @ '' Invalid response format''\<rparr>
                      else failed_status result w
                  | None \<Rightarrow> failed_status result w))
      in w'\<lparr>loading := False\<rparr>)"

section \<open>The settings modal\<close>

text \<open>
  The fields of \<^verbatim>\<open>SettingsModal\<close>. They are declared as three strings and an object
  of four booleans, and they hold whatever the stored document had in them:
  the effect below copies parsed values into the state unchecked.
\<close>

record modal =
  slackChannel :: jsval
  deliveryTime :: jsval
  timezone :: jsval
  categories :: jsval
  modalStatusMessage :: string

definition settings_key :: string where
  "settings_key = ''ai-news-digest-settings''"

text \<open>The initial values of the five \<^verbatim>\<open>useState\<close> calls.\<close>

definition initial_modal :: modal where
  "initial_modal =
     \<lparr>slackChannel = JString '''',
      deliveryTime = JString ''10:00'',
      timezone = JString ''America/New_York'',
      categories =
        JObject [(''breaking'', JBool True), (''research'', JBool True),
                 (''trends'', JBool True), (''startups'', JBool True)],
      modalStatusMessage = ''''\<rparr>"

text \<open>
  The body of the effect that runs when the modal opens. \<^verbatim>\<open>JSON.parse\<close> throwing,
  and \<^verbatim>\<open>parsed.slackChannel\<close> throwing on \<^verbatim>\<open>null\<close>, both happen before the first
  setter and are caught: the state stays as it was. The fallback of the last setter is
  the \<open>categories\<close> of the render the effect belongs to.
\<close>

definition loadSettings :: "storage \<Rightarrow> modal \<Rightarrow> modal" where
  "loadSettings store m =
     (case store settings_key of
        None \<Rightarrow> m
      | Some Unparsable \<Rightarrow> m
      | Some (Parses parsed) \<Rightarrow>
          if parsed = JNull then m
          else
            m\<lparr>slackChannel := js_or (get_prop parsed ''slackChannel'') (JString ''''),
              deliveryTime := js_or (get_prop parsed ''deliveryTime'') (JString ''10:00''),
              timezone := js_or (get_prop parsed ''timezone'') (JString ''America/New_York''),
              categories := js_or (get_prop parsed ''categories'') (categories m)\<rparr>)"

definition SettingsModal_effect :: "bool \<Rightarrow> storage \<Rightarrow> modal \<Rightarrow> modal" where
  "SettingsModal_effect isOpen store m = (if isOpen then loadSettings store m else m)"

text \<open>
  \<^verbatim>\<open>handleSave\<close>, up to the timer it starts (which clears the message and closes the
  modal 1500 ms later). The first argument says whether \<^verbatim>\<open>setItem\<close> throws.
\<close>

definition handleSave ::
  "thrown option \<Rightarrow> modal \<Rightarrow> storage \<Rightarrow> (modal \<times> storage) \<times> thrown option" where
  "handleSave setItem_fails m store =
     (let settings =
            JObject [(''slackChannel'', slackChannel m), (''deliveryTime'', deliveryTime m),
                     (''timezone'', timezone m), (''categories'', categories m)]
      in case setItem_fails of
           Some e \<Rightarrow> ((m, store), Some e)
         | None \<Rightarrow>
             ((m\<lparr>modalStatusMessage := ''Settings saved successfully''\<rparr>,
               store(settings_key \<mapsto> Parses (reparse settings))),
              None))"

subsection \<open>The settings record of the specification\<close>

text \<open>
  The typed record of the data model: what the form holds when the user has filled it
  in, and what a well-formed stored document describes.
\<close>

record Settings =
  channel :: string
  delivery :: string
  zone :: string
  breaking :: bool
  research :: bool
  trends :: bool
  startups :: bool

definition default_settings :: Settings where
  "default_settings =
     \<lparr>channel = '''', delivery = ''10:00'', zone = ''America/New_York'',
      breaking = True, research = True, trends = True, startups = True\<rparr>"

text \<open>The modal whose four fields hold the record \<open>s\<close>.\<close>

definition with_settings :: "Settings \<Rightarrow> modal \<Rightarrow> modal" where
  "with_settings s m =
     m\<lparr>slackChannel := JString (channel s),
       deliveryTime := JString (delivery s),
       timezone := JString (zone s),
       categories :=
         JObject [(''breaking'', JBool (breaking s)), (''research'', JBool (research s)),
                  (''trends'', JBool (trends s)), (''startups'', JBool (startups s))]\<rparr>"

text \<open>
  Well-formed, in the words of the data model: the delivery time reads \<^verbatim>\<open>HH:MM\<close> and
  the time zone is a name, so not empty.
\<close>

definition is_digit :: "char \<Rightarrow> bool" where
  "is_digit c = (c \<in> set ''0123456789'')"

definition well_formed :: "Settings \<Rightarrow> bool" where
  "well_formed s =
     ((case delivery s of
         [h1, h2, c, m1, m2] \<Rightarrow>
           is_digit h1 \<and> is_digit h2 \<and> c = CHR '':'' \<and> is_digit m1 \<and> is_digit m2
       | _ \<Rightarrow> False)
      \<and> zone s \<noteq> [])"

text \<open>
  Loading as the specification words it, to compare with \<open>loadSettings\<close>: a missing or
  invalid document gives the defaults, and every field of a stored document, each of
  the four nested booleans included, is taken when it has the right type and replaced
  by its own default otherwise.
\<close>

definition spec_string_field :: "jsval \<Rightarrow> string \<Rightarrow> string \<Rightarrow> string" where
  "spec_string_field doc k d = (case get_prop doc k of Some (JString x) \<Rightarrow> x | _ \<Rightarrow> d)"

definition spec_bool_field :: "jsval option \<Rightarrow> string \<Rightarrow> bool" where
  "spec_bool_field cats k =
     (case cats of
        Some c \<Rightarrow> (case get_prop c k of Some (JBool b) \<Rightarrow> b | _ \<Rightarrow> True)
      | None \<Rightarrow> True)"

definition spec_loadSettings :: "storage \<Rightarrow> Settings" where
  "spec_loadSettings store =
     (case store settings_key of
        Some (Parses (JObject kvs)) \<Rightarrow>
          (let doc = JObject kvs; cats = get_prop doc ''categories''
           in \<lparr>channel = spec_string_field doc ''slackChannel'' '''',
               delivery = spec_string_field doc ''deliveryTime'' ''10:00'',
               zone = spec_string_field doc ''timezone'' ''America/New_York'',
               breaking = spec_bool_field cats ''breaking'',
               research = spec_bool_field cats ''research'',
               trends = spec_bool_field cats ''trends'',
               startups = spec_bool_field cats ''startups''\<rparr>)
      | _ \<Rightarrow> default_settings)"

section \<open>Cron humanizer\<close>

text \<open>
  Modelled from the spec: \<^verbatim>\<open>cronToHuman\<close>, which the page imports from
  \<^verbatim>\<open>@/lib/scheduler\<close>, a module that is not among the sources. The specification
  gives its contract: five fields separated by single spaces (minute, hour, day of
  month, month, day of week); a fixed minute and hour with the other three fields
  wildcards reads "Daily at H:MM AM/PM", the hour on the 12-hour clock and the minute
  padded to two digits; on a field count other than five or a token that does not
  parse, the expression comes back unchanged. A token is taken to be a wildcard or a
  decimal number within the range of its field; an expression that parses and is not of
  the daily form comes back unchanged as well.
\<close>

fun split_on :: "char \<Rightarrow> string \<Rightarrow> string list" where
  "split_on c [] = [[]]"
| "split_on c (x # xs) =
     (if x = c then [] # split_on c xs
      else (case split_on c xs of [] \<Rightarrow> [[x]] | w # ws \<Rightarrow> (x # w) # ws))"

datatype cron_field = Wildcard | Fixed nat

definition parse_number :: "string \<Rightarrow> nat option" where
  "parse_number tok =
     (if tok \<noteq> [] \<and> list_all is_digit tok
      then Some (digits_value tok)
      else None)"

definition parse_field :: "nat \<Rightarrow> nat \<Rightarrow> string \<Rightarrow> cron_field option" where
  "parse_field lo hi tok =
     (if tok = ''*'' then Some Wildcard
      else (case parse_number tok of
              None \<Rightarrow> None
            | Some n \<Rightarrow> if lo \<le> n \<and> n \<le> hi then Some (Fixed n) else None))"

record cron =
  minute :: cron_field
  hour :: cron_field
  day_of_month :: cron_field
  month :: cron_field
  day_of_week :: cron_field

definition parse_cron :: "string \<Rightarrow> cron option" where
  "parse_cron expr =
     (case split_on CHR '' '' expr of
        [f1, f2, f3, f4, f5] \<Rightarrow>
          (case (parse_field 0 59 f1, parse_field 0 23 f2, parse_field 1 31 f3,
                 parse_field 1 12 f4, parse_field 0 7 f5) of
             (Some mi, Some h, Some dm, Some mo, Some dw) \<Rightarrow>
               Some \<lparr>minute = mi, hour = h, day_of_month = dm, month = mo, day_of_week = dw\<rparr>
           | _ \<Rightarrow> None)
      | _ \<Rightarrow> None)"

definition hour12 :: "nat \<Rightarrow> string" where
  "hour12 h = digits (if h mod 12 = 0 then 12 else h mod 12)"

definition pad2 :: "nat \<Rightarrow> string" where
  "pad2 m = (if m < 10 then CHR ''0'' # digits m else digits m)"

definition am_pm :: "nat \<Rightarrow> string" where
  "am_pm h = (if h < 12 then ''AM'' else ''PM'')"

definition cronToHuman :: "string \<Rightarrow> string" where
  "cronToHuman cronExpression =
     (case parse_cron cronExpression of
        None \<Rightarrow> cronExpression
      | Some c \<Rightarrow>
          (case (minute c, hour c, day_of_month c, month c, day_of_week c) of
             (Fixed m, Fixed h, Wildcard, Wildcard, Wildcard) \<Rightarrow>
               ''Daily at '' @ hour12 h @ '':'' @ pad2 m @ '' '' @ am_pm h
           | _ \<Rightarrow> cronExpression))"

section \<open>Properties of the decimal rendering\<close>

lemma digit_value_digit_char: "d < 10 \<Longrightarrow> digit_value (digit_char d) = d"
  by (simp add: digit_value_def digit_char_def)

lemma digits_value_snoc: "digits_value (ds @ [c]) = 10 * digits_value ds + digit_value c"
  by (simp add: digits_value_def)

lemma digits_value_digits: "digits_value (digits n) = n"
proof (induction n rule: digits.induct)
  case (1 n)
  show ?case
  proof (cases "n < 10")
    case True
    then show ?thesis
      by (subst digits.simps) (simp add: digits_value_def digit_value_digit_char)
  next
    case False
    then have "digits_value (digits n) = 10 * digits_value (digits (n div 10)) + digit_value (digit_char (n mod 10))"
      by (subst digits.simps) (simp add: digits_value_snoc)
    also have "\<dots> = 10 * (n div 10) + n mod 10"
      using 1 False by (simp add: digit_value_digit_char)
    finally show ?thesis by simp
  qed
qed

lemma digit_char_not_minus: "d < 10 \<Longrightarrow> digit_char d \<noteq> CHR ''-''"
proof
  assume d: "d < 10" and e: "digit_char d = CHR ''-''"
  from e have "of_char (digit_char d) = (of_char (CHR ''-'') :: nat)" by simp
  with d show False by (simp add: digit_char_def)
qed

lemma minus_notin_digits: "CHR ''-'' \<notin> set (digits n)"
proof (induction n rule: digits.induct)
  case (1 n)
  show ?case
  proof (cases "n < 10")
    case True
    then show ?thesis
      using digit_char_not_minus[of n] by (subst digits.simps) auto
  next
    case False
    then show ?thesis
      using 1 digit_char_not_minus[of "n mod 10"] by (subst digits.simps) auto
  qed
qed

lemma digits_nonempty: "digits n \<noteq> []"
  by (subst digits.simps) simp

lemma digits_inj: "digits a = digits b \<Longrightarrow> a = b"
  by (metis digits_value_digits)

lemma int_toString_inj: "int_toString a = int_toString b \<Longrightarrow> a = b"
proof -
  assume eq: "int_toString a = int_toString b"
  have hd_digits: "\<And>n. hd (digits n) \<noteq> CHR ''-''"
    using minus_notin_digits digits_nonempty by (metis hd_in_set)
  consider "a < 0" "b < 0" | "a < 0" "\<not> b < 0" | "\<not> a < 0" "b < 0" | "\<not> a < 0" "\<not> b < 0"
    by blast
  then show ?thesis
  proof cases
    case 1
    with eq have "digits (nat (- a)) = digits (nat (- b))" by (simp add: int_toString_def)
    then have "nat (- a) = nat (- b)" by (rule digits_inj)
    with 1 show ?thesis by simp
  next
    case 2
    from eq have "hd (int_toString a) = hd (int_toString b)" by simp
    with 2 have "hd (digits (nat b)) = CHR ''-''" by (simp add: int_toString_def)
    with hd_digits show ?thesis by blast
  next
    case 3
    from eq have "hd (int_toString a) = hd (int_toString b)" by simp
    with 3 have "hd (digits (nat a)) = CHR ''-''" by (simp add: int_toString_def)
    with hd_digits show ?thesis by blast
  next
    case 4
    with eq have "digits (nat a) = digits (nat b)" by (simp add: int_toString_def)
    then have "nat a = nat b" by (rule digits_inj)
    with 4 show ?thesis by simp
  qed
qed

section \<open>Properties of the relative time formatter\<close>

lemma formatNextRun_parsed:
  assumes "s \<noteq> []" and "date_parse s = Some t"
  shows "formatNextRun date_parse locale_string now (Some s) =
     (if t - now < 0 then ''Past due''
      else if (t - now) div 3600000 < 1 then
         ''In '' @ int_toString (((t - now) mod 3600000) div 60000) @ '' minute''
            @ (if ((t - now) mod 3600000) div 60000 \<noteq> 1 then ''s'' else '''')
      else if (t - now) div 3600000 < 24 then
         ''In '' @ int_toString ((t - now) div 3600000) @ '' hour''
            @ (if (t - now) div 3600000 \<noteq> 1 then ''s'' else '''')
      else locale_string t)"
  using assms
  by (simp add: formatNextRun_def num_sub_def num_lt_def num_floor_div_def num_rem_def
      num_toString_def date_toLocaleString_def Let_def)

lemma int_toString_samples:
  "int_toString 0 = ''0''" "int_toString 1 = ''1''" "int_toString 30 = ''30''" "int_toString 5 = ''5''"
  by code_simp+

text \<open>
  C3, at the input \<^verbatim>\<open>"not-a-date"\<close>: for a string that does not parse, the date is
  invalid, every comparison with its \<^verbatim>\<open>NaN\<close> difference is false, and the last
  branch renders the invalid date, as \<^verbatim>\<open>toLocaleString\<close> does, by "Invalid Date".
  The result is not the sentinel "Invalid date" of the \<^verbatim>\<open>catch\<close> clause, which is
  never entered. No exception leaves the function, and an absent argument gives
  "Not scheduled" (\<open>formatNextRun_absent\<close> below).
\<close>

theorem formatNextRun_unparsable:
  "formatNextRun (date_parse(''not-a-date'' := None)) locale_string now (Some ''not-a-date'')
     = ''Invalid Date''
   \<and> formatNextRun (date_parse(''not-a-date'' := None)) locale_string now (Some ''not-a-date'')
     \<noteq> ''Invalid date''"
  by (simp add: formatNextRun_def num_sub_def num_lt_def num_floor_div_def num_rem_def
      date_toLocaleString_def Let_def)

lemma formatNextRun_absent:
  "formatNextRun date_parse locale_string now None = ''Not scheduled''"
  "formatNextRun date_parse locale_string now (Some '''') = ''Not scheduled''"
  by (simp_all add: formatNextRun_def)

text \<open>
  C4: for a string that parses to an instant not before the current time, a difference
  below one hour is rendered "In N minute(s)" with N the whole minutes remaining, and a
  difference of at least one hour and below 24 hours is rendered "In N hour(s)" with N
  the whole hours remaining, the minutes beyond them dropped; the singular is used
  exactly when N = 1.
\<close>

theorem formatNextRun_minutes_hours:
  "s \<noteq> [] \<Longrightarrow> date_parse s = Some t \<Longrightarrow> now \<le> t \<Longrightarrow>
    (t - now < 3600000 \<longrightarrow>
       formatNextRun date_parse locale_string now (Some s) =
         ''In '' @ int_toString ((t - now) div 60000) @ '' minute''
           @ (if (t - now) div 60000 = 1 then '''' else ''s'')) \<and>
    (3600000 \<le> t - now \<and> t - now < 86400000 \<longrightarrow>
       formatNextRun date_parse locale_string now (Some s) =
         ''In '' @ int_toString ((t - now) div 3600000) @ '' hour''
           @ (if (t - now) div 3600000 = 1 then '''' else ''s''))"
proof -
  assume a: "s \<noteq> []" "date_parse s = Some t" "now \<le> t"
  let ?d = "t - now"
  have d0: "0 \<le> ?d" using a by simp
  have m: "?d < 3600000 \<Longrightarrow> ?d div 3600000 = 0 \<and> ?d mod 3600000 = ?d"
    using d0 by simp
  have h: "3600000 \<le> ?d \<Longrightarrow> ?d < 86400000 \<Longrightarrow> 1 \<le> ?d div 3600000 \<and> ?d div 3600000 < 24"
    using zdiv_mono1[of 3600000 ?d 3600000] zdiv_mono1[of ?d 86399999 3600000] by simp
  note eq = formatNextRun_parsed[of s date_parse t locale_string now, OF a(1) a(2)]
  show ?thesis
    using m h d0 by (auto simp: eq)
qed

theorem formatNextRun_minutes_hours_witness:
  "formatNextRun (\<lambda>s. if s = ''2024-01-01T00:30:00.000Z'' then Some 1704069000000 else None)
     (\<lambda>t. '''') 1704067200000 (Some ''2024-01-01T00:30:00.000Z'') = ''In 30 minutes''
   \<and> formatNextRun (\<lambda>s. if s = ''2024-01-01T00:01:00.000Z'' then Some 1704067260000 else None)
     (\<lambda>t. '''') 1704067200000 (Some ''2024-01-01T00:01:00.000Z'') = ''In 1 minute''
   \<and> formatNextRun (\<lambda>s. if s = ''2024-01-01T05:00:00.000Z'' then Some 1704085200000 else None)
     (\<lambda>t. '''') 1704067200000 (Some ''2024-01-01T05:00:00.000Z'') = ''In 5 hours''
   \<and> formatNextRun (\<lambda>s. if s = ''2024-01-01T01:59:59.999Z'' then Some 1704074399999 else None)
     (\<lambda>t. '''') 1704067200000 (Some ''2024-01-01T01:59:59.999Z'') = ''In 1 hour''"
  using
    formatNextRun_minutes_hours[of "''2024-01-01T00:30:00.000Z''"
      "\<lambda>s. if s = ''2024-01-01T00:30:00.000Z'' then Some 1704069000000 else None"
      1704069000000 1704067200000 "\<lambda>t. ''''"]
    formatNextRun_minutes_hours[of "''2024-01-01T00:01:00.000Z''"
      "\<lambda>s. if s = ''2024-01-01T00:01:00.000Z'' then Some 1704067260000 else None"
      1704067260000 1704067200000 "\<lambda>t. ''''"]
    formatNextRun_minutes_hours[of "''2024-01-01T05:00:00.000Z''"
      "\<lambda>s. if s = ''2024-01-01T05:00:00.000Z'' then Some 1704085200000 else None"
      1704085200000 1704067200000 "\<lambda>t. ''''"]
    formatNextRun_minutes_hours[of "''2024-01-01T01:59:59.999Z''"
      "\<lambda>s. if s = ''2024-01-01T01:59:59.999Z'' then Some 1704074399999 else None"
      1704074399999 1704067200000 "\<lambda>t. ''''"]
  by (simp add: int_toString_samples)

text \<open>
  C5: for a string that parses to an instant strictly before the current time, the
  result is "Past due".
\<close>

theorem formatNextRun_past_due:
  "s \<noteq> [] \<Longrightarrow> date_parse s = Some t \<Longrightarrow> t < now \<Longrightarrow>
     formatNextRun date_parse locale_string now (Some s) = ''Past due''"
  by (simp add: formatNextRun_parsed)

theorem formatNextRun_past_due_witness:
  "formatNextRun (\<lambda>s. if s = ''2023-12-31T23:59:59.000Z'' then Some 1704067199000 else None)
     (\<lambda>t. '''') 1704067200000 (Some ''2023-12-31T23:59:59.000Z'') = ''Past due''"
  using formatNextRun_past_due[of "''2023-12-31T23:59:59.000Z''"
      "\<lambda>s. if s = ''2023-12-31T23:59:59.000Z'' then Some 1704067199000 else None"
      1704067199000 1704067200000 "\<lambda>t. ''''"]
  by simp

text \<open>
  C10: for a string that parses to exactly the current time, the result is
  "In 0 minutes": the zero difference is in the minutes branch and takes the plural.
\<close>

theorem formatNextRun_now:
  "s \<noteq> [] \<Longrightarrow> date_parse s = Some now \<Longrightarrow>
     formatNextRun date_parse locale_string now (Some s) = ''In 0 minutes''"
  by (simp add: formatNextRun_parsed int_toString_samples)

theorem formatNextRun_now_witness:
  "formatNextRun (\<lambda>s. if s = ''2024-01-01T00:00:00.000Z'' then Some 1704067200000 else None)
     (\<lambda>t. '''') 1704067200000 (Some ''2024-01-01T00:00:00.000Z'') = ''In 0 minutes''"
  using formatNextRun_now[of "''2024-01-01T00:00:00.000Z''"
      "\<lambda>s. if s = ''2024-01-01T00:00:00.000Z'' then Some 1704067200000 else None"
      1704067200000 "\<lambda>t. ''''"]
  by simp

section \<open>Properties of the history\<close>

lemma take_append_take: "take n (xs @ take n ys) = take n (xs @ ys)"
  by (simp add: min_def)

lemma saveToHistory_history:
  "digestData \<noteq> JNull \<Longrightarrow>
     history (fst (saveToHistory env digestData w)) = take 20 (newItem env digestData # history w)"
  by (simp add: saveToHistory_def Let_def split: option.splits)

lemma saveToHistory_succeeds:
  "snd (saveToHistory env digestData w) = None \<longleftrightarrow>
     digestData \<noteq> JNull \<and> setItem_throws env = None"
  by (simp add: saveToHistory_def Let_def split: option.splits)

lemma saveToHistory_store:
  "snd (saveToHistory env digestData w) = None \<Longrightarrow>
     localStorage (fst (saveToHistory env digestData w)) history_key
       = Some (Parses (JArray (map reparse (history (fst (saveToHistory env digestData w))))))"
  by (simp add: saveToHistory_def Let_def split: option.splits if_splits)

lemma saveToHistory_seq_history:
  "all_succeed calls w \<Longrightarrow>
     history (saveToHistory_seq calls w)
       = (if calls = [] then history w
          else take 20 (rev (map (\<lambda>(env, d). newItem env d) calls) @ history w))"
proof (induction calls arbitrary: w)
  case Nil
  then show ?case by simp
next
  case (Cons c calls)
  obtain env d where c: "c = (env, d)" by (cases c)
  from Cons.prems c have ok: "snd (saveToHistory env d w) = None"
    and rest: "all_succeed calls (fst (saveToHistory env d w))" by simp_all
  from ok have d: "d \<noteq> JNull" by (simp add: saveToHistory_succeeds)
  let ?w1 = "fst (saveToHistory env d w)"
  let ?f = "\<lambda>(env, d). newItem env d"
  have h1: "history ?w1 = take 20 (newItem env d # history w)"
    by (rule saveToHistory_history[OF d])
  show ?case
  proof (cases "calls = []")
    case True
    then show ?thesis by (simp add: c h1)
  next
    case False
    have "history (saveToHistory_seq (c # calls) w) = history (saveToHistory_seq calls ?w1)"
      by (simp add: c)
    also have "\<dots> = take 20 (rev (map ?f calls) @ history ?w1)"
      using Cons.IH[OF rest] False by simp
    also have "\<dots> = take 20 (rev (map ?f calls) @ take 20 (newItem env d # history w))"
      by (simp only: h1)
    also have "\<dots> = take 20 (rev (map ?f calls) @ (newItem env d # history w))"
      by (rule take_append_take)
    also have "rev (map ?f calls) @ (newItem env d # history w)
                 = rev (map ?f (c # calls)) @ history w"
      by (simp add: c)
    finally show ?thesis by simp
  qed
qed

lemma saveToHistory_seq_store:
  "all_succeed calls w \<Longrightarrow> calls \<noteq> [] \<Longrightarrow>
     localStorage (saveToHistory_seq calls w) history_key
       = Some (Parses (JArray (map reparse (history (saveToHistory_seq calls w)))))"
proof (induction calls arbitrary: w)
  case Nil
  then show ?case by simp
next
  case (Cons c calls)
  obtain env d where c: "c = (env, d)" by (cases c)
  from Cons.prems c have ok: "snd (saveToHistory env d w) = None"
    and rest: "all_succeed calls (fst (saveToHistory env d w))" by simp_all
  show ?case
  proof (cases "calls = []")
    case True
    then show ?thesis using saveToHistory_store[OF ok] by (simp add: c)
  next
    case False
    then show ?thesis using Cons.IH[OF rest False] by (simp add: c)
  qed
qed

lemma all_succeed_iff:
  "all_succeed calls w
     \<longleftrightarrow> list_all (\<lambda>(env, d). d \<noteq> JNull \<and> setItem_throws env = None) calls"
  by (induction calls arbitrary: w) (auto simp: saveToHistory_succeeds)

text \<open>
  C1: for every non-empty sequence of calls of \<^verbatim>\<open>saveToHistory\<close> that all complete,
  made one after the other from any state, the list in memory is the new entries,
  newest first, followed by the earlier list, cut to its first 20 entries: it has at
  most 20 entries, the entry of the most recent call is first, the stored document is
  this same list, and once calls and earlier entries together number 20 or more
  (25 calls, say) it has exactly 20 entries, the oldest being dropped from the tail.
\<close>

theorem saveToHistory_seq_capped:
  "all_succeed calls w \<Longrightarrow> calls \<noteq> [] \<Longrightarrow>
     history (saveToHistory_seq calls w)
       = take 20 (rev (map (\<lambda>(env, d). newItem env d) calls) @ history w)
     \<and> length (history (saveToHistory_seq calls w)) \<le> 20
     \<and> take 1 (history (saveToHistory_seq calls w))
         = [newItem (fst (last calls)) (snd (last calls))]
     \<and> localStorage (saveToHistory_seq calls w) history_key
         = Some (Parses (JArray (map reparse (history (saveToHistory_seq calls w)))))
     \<and> (if 20 \<le> length calls + length (history w)
         then length (history (saveToHistory_seq calls w)) = 20
         else length (history (saveToHistory_seq calls w)) = length calls + length (history w))"
proof -
  assume ok: "all_succeed calls w" and ne: "calls \<noteq> []"
  let ?items = "map (\<lambda>(env, d). newItem env d) calls"
  have h: "history (saveToHistory_seq calls w) = take 20 (rev ?items @ history w)"
    using saveToHistory_seq_history[OF ok] ne by simp
  have first: "take 1 (take 20 (rev ?items @ history w)) = [newItem (fst (last calls)) (snd (last calls))]"
  proof -
    from ne obtain cs c where calls: "calls = cs @ [c]" by (metis rev_exhaust)
    show ?thesis by (simp add: calls case_prod_beta)
  qed
  have len: "length (history (saveToHistory_seq calls w)) = min (length calls + length (history w)) 20"
    by (simp only: h length_take length_append length_rev length_map)
  have store: "localStorage (saveToHistory_seq calls w) history_key
         = Some (Parses (JArray (map reparse (history (saveToHistory_seq calls w)))))"
    by (rule saveToHistory_seq_store[OF ok ne])
  have first': "take 1 (history (saveToHistory_seq calls w))
         = [newItem (fst (last calls)) (snd (last calls))]"
    by (simp only: h first)
  from len have cap: "length (history (saveToHistory_seq calls w)) \<le> 20" by simp
  from len have cnt: "(if 20 \<le> length calls + length (history w)
         then length (history (saveToHistory_seq calls w)) = 20
         else length (history (saveToHistory_seq calls w)) = length calls + length (history w))"
    by simp
  from h cap first' store cnt show ?thesis by blast
qed

theorem saveToHistory_seq_capped_witness:
  "length (history (saveToHistory_seq
      (map (\<lambda>n. (\<lparr>id_ms = 1704067200000 + int n, locale_date = ''1/1/2024'',
                    ts_ms = 1704067200000 + int n, setItem_throws = None\<rparr>,
                   JObject [(''digest_date'', JString ''2024-01-01''), (''categories'', JArray []),
                            (''total_stories'', JNumber (Finite 0)),
                            (''slack_posted'', JBool False)]))
         [0..<25])
      (initial_world Map.empty))) = 20
   \<and> take 1 (history (saveToHistory_seq
      (map (\<lambda>n. (\<lparr>id_ms = 1704067200000 + int n, locale_date = ''1/1/2024'',
                    ts_ms = 1704067200000 + int n, setItem_throws = None\<rparr>,
                   JObject [(''digest_date'', JString ''2024-01-01''), (''categories'', JArray []),
                            (''total_stories'', JNumber (Finite 0)),
                            (''slack_posted'', JBool False)]))
         [0..<25])
      (initial_world Map.empty)))
     = [newItem \<lparr>id_ms = 1704067200024, locale_date = ''1/1/2024'',
                 ts_ms = 1704067200024, setItem_throws = None\<rparr>
          (JObject [(''digest_date'', JString ''2024-01-01''), (''categories'', JArray []),
                    (''total_stories'', JNumber (Finite 0)), (''slack_posted'', JBool False)])]"
proof -
  let ?calls = "map (\<lambda>n. (\<lparr>id_ms = 1704067200000 + int n, locale_date = ''1/1/2024'',
                    ts_ms = 1704067200000 + int n, setItem_throws = None\<rparr>,
                   JObject [(''digest_date'', JString ''2024-01-01''), (''categories'', JArray []),
                            (''total_stories'', JNumber (Finite 0)),
                            (''slack_posted'', JBool False)]))
         [0..<25]"
  have ok: "all_succeed ?calls (initial_world Map.empty)"
    by (simp add: all_succeed_iff list_all_iff)
  have ne: "?calls \<noteq> []" by simp
  have l: "last ?calls = (\<lparr>id_ms = 1704067200024, locale_date = ''1/1/2024'',
                 ts_ms = 1704067200024, setItem_throws = None\<rparr>,
          JObject [(''digest_date'', JString ''2024-01-01''), (''categories'', JArray []),
                    (''total_stories'', JNumber (Finite 0)), (''slack_posted'', JBool False)])"
    by (simp add: last_map)
  have n: "length ?calls = 25" by simp
  note capped = saveToHistory_seq_capped[OF ok ne]
  from capped have "take 1 (history (saveToHistory_seq ?calls (initial_world Map.empty)))
      = [newItem (fst (last ?calls)) (snd (last ?calls))]"
    by blast
  then have first: "take 1 (history (saveToHistory_seq ?calls (initial_world Map.empty)))
      = [newItem \<lparr>id_ms = 1704067200024, locale_date = ''1/1/2024'',
                 ts_ms = 1704067200024, setItem_throws = None\<rparr>
          (JObject [(''digest_date'', JString ''2024-01-01''), (''categories'', JArray []),
                    (''total_stories'', JNumber (Finite 0)), (''slack_posted'', JBool False)])]"
    by (simp only: l fst_conv snd_conv)
  from capped have "if 20 \<le> length ?calls + length (history (initial_world Map.empty))
      then length (history (saveToHistory_seq ?calls (initial_world Map.empty))) = 20
      else length (history (saveToHistory_seq ?calls (initial_world Map.empty)))
             = length ?calls + length (history (initial_world Map.empty))"
    by blast
  then have len: "length (history (saveToHistory_seq ?calls (initial_world Map.empty))) = 20"
    by (simp add: n)
  from len first show ?thesis by blast
qed

lemma int_toString_inj_iff: "int_toString a = int_toString b \<longleftrightarrow> a = b"
  using int_toString_inj by blast

lemma digit_char_simps:
  "digit_char 0 = CHR ''0''" "digit_char 1 = CHR ''1''" "digit_char 2 = CHR ''2''"
  "digit_char 3 = CHR ''3''" "digit_char 4 = CHR ''4''" "digit_char 5 = CHR ''5''"
  "digit_char 6 = CHR ''6''" "digit_char 7 = CHR ''7''" "digit_char 8 = CHR ''8''"
  "digit_char 9 = CHR ''9''" "digit_char (Suc 0) = CHR ''1''"
  by code_simp+

lemma int_toString_sample_ms: "int_toString 1704067200000 = ''1704067200000''"
  by (simp add: int_toString_def digits.simps digit_char_simps)

text \<open>
  C9: as the code has it, an entry's id is the decimal rendering of the clock reading
  \<^verbatim>\<open>Date.now()\<close> taken when it is built, so two entries have the same id exactly
  when they were built at the same reading: entries built at different readings have
  different ids.
\<close>

theorem newItem_id_eq_iff:
  "get_prop (newItem env1 d1) ''id'' = get_prop (newItem env2 d2) ''id''
     \<longleftrightarrow> id_ms env1 = id_ms env2"
  by (simp add: newItem_def int_toString_inj_iff)

text \<open>
  C9 as stated fails: two calls that complete within the same millisecond build two
  different entries that carry the same id.
\<close>

theorem same_reading_same_id:
  "map (\<lambda>e. get_prop e ''id'')
     (history (saveToHistory_seq
        [(\<lparr>id_ms = 1704067200000, locale_date = ''1/1/2024'', ts_ms = 1704067200000,
           setItem_throws = None\<rparr>,
          JObject [(''digest_date'', JString ''2024-01-01''), (''categories'', JArray [])]),
         (\<lparr>id_ms = 1704067200000, locale_date = ''1/1/2024'', ts_ms = 1704067200000,
           setItem_throws = None\<rparr>,
          JObject [(''digest_date'', JString ''2024-01-02''), (''categories'', JArray [])])]
        (initial_world Map.empty)))
   = [Some (JString ''1704067200000''), Some (JString ''1704067200000'')]
   \<and> distinct (history (saveToHistory_seq
        [(\<lparr>id_ms = 1704067200000, locale_date = ''1/1/2024'', ts_ms = 1704067200000,
           setItem_throws = None\<rparr>,
          JObject [(''digest_date'', JString ''2024-01-01''), (''categories'', JArray [])]),
         (\<lparr>id_ms = 1704067200000, locale_date = ''1/1/2024'', ts_ms = 1704067200000,
           setItem_throws = None\<rparr>,
          JObject [(''digest_date'', JString ''2024-01-02''), (''categories'', JArray [])])]
        (initial_world Map.empty)))"
  by (simp add: saveToHistory_def newItem_def initial_world_def js_or_def Let_def
      int_toString_sample_ms)

section \<open>Properties of the digest fetch\<close>

lemma isArray_truthy: "isArray (get_prop d k) \<Longrightarrow> truthy d"
  by (cases d) simp_all

lemma fetchNews_valid:
  assumes "success r" "response_result r = Some d" "isArray (get_prop d ''categories'')"
  shows "history (fetchNews (Returns r) env w) = take 20 (newItem env d # history w)"
    and "localStorage (fetchNews (Returns r) env w)
           = localStorage (fst (saveToHistory env d w))"
    and "digest (fetchNews (Returns r) env w) = Some d"
proof -
  from assms(3) have t: "truthy d" by (rule isArray_truthy)
  then have nn: "d \<noteq> JNull" by auto
  show "history (fetchNews (Returns r) env w) = take 20 (newItem env d # history w)"
    using assms t nn
    by (simp add: fetchNews_def saveToHistory_def catch_status_def Let_def split: option.splits)
  show "localStorage (fetchNews (Returns r) env w)
           = localStorage (fst (saveToHistory env d w))"
    using assms t nn
    by (simp add: fetchNews_def saveToHistory_def catch_status_def Let_def split: option.splits)
  show "digest (fetchNews (Returns r) env w) = Some d"
    using assms t nn
    by (simp add: fetchNews_def saveToHistory_def catch_status_def Let_def split: option.splits)
qed

lemma fetchNews_invalid:
  assumes "success r" "response_result r = Some d" "truthy d"
    "\<not> isArray (get_prop d ''categories'')"
  shows "fetchNews (Returns r) env w
     = w\<lparr>loading := False, statusMessage := cross_mark @ '' Invalid response format''\<rparr>"
  using assms by (simp add: fetchNews_def Let_def)

lemma fetchNews_failed:
  assumes "\<not> success r \<or> response_result r = None
             \<or> (\<exists>d. response_result r = Some d \<and> \<not> truthy d)"
  shows "fetchNews (Returns r) env w
     = w\<lparr>loading := False,
         statusMessage := cross_mark @ '' Failed to fetch news: ''
           @ (case error r of None \<Rightarrow> ''Unknown error''
              | Some m \<Rightarrow> if m \<noteq> [] then m else ''Unknown error'')\<rparr>"
  using assms by (auto simp add: fetchNews_def failed_status_def Let_def split: option.splits)

lemma fetchNews_thrown:
  "fetchNews (Throws e) env w
     = w\<lparr>loading := False, statusMessage := cross_mark @ '' Error: '' @ thrown_message e\<rparr>"
  by (simp add: fetchNews_def catch_status_def Let_def)

text \<open>
  C2: as the code has it, a fetch whose answer reports success and carries a result
  with an array-typed \<^verbatim>\<open>categories\<close> leaves the history and the store exactly as one
  call of \<^verbatim>\<open>saveToHistory\<close> on the state before leaves them, one entry prepended;
  every other fetch leaves both untouched. A successful answer with a truthy result that
  lacks the array gives the message "Invalid response format"; an answer that reports no
  success, or success with no result or a falsy one, gives "Failed to fetch news: ..."
  with the gateway's error text or "Unknown error"; a thrown value gives "Error: ...".
\<close>

theorem fetchNews_saves_once:
  "(success r \<and> response_result r = Some d \<and> isArray (get_prop d ''categories'') \<longrightarrow>
      history (fetchNews (Returns r) env w) = history (fst (saveToHistory env d w))
    \<and> history (fetchNews (Returns r) env w) = take 20 (newItem env d # history w)
    \<and> localStorage (fetchNews (Returns r) env w) = localStorage (fst (saveToHistory env d w)))
   \<and> (success r \<and> response_result r = Some d \<and> truthy d
        \<and> \<not> isArray (get_prop d ''categories'') \<longrightarrow>
      history (fetchNews (Returns r) env w) = history w
    \<and> localStorage (fetchNews (Returns r) env w) = localStorage w
    \<and> statusMessage (fetchNews (Returns r) env w) = cross_mark @ '' Invalid response format'')
   \<and> (\<not> success r \<or> response_result r = None
        \<or> (response_result r = Some d \<and> \<not> truthy d) \<longrightarrow>
      history (fetchNews (Returns r) env w) = history w
    \<and> localStorage (fetchNews (Returns r) env w) = localStorage w
    \<and> statusMessage (fetchNews (Returns r) env w)
        = cross_mark @ '' Failed to fetch news: ''
           @ (case error r of None \<Rightarrow> ''Unknown error''
              | Some m \<Rightarrow> if m \<noteq> [] then m else ''Unknown error''))
   \<and> history (fetchNews (Throws e) env w) = history w
   \<and> localStorage (fetchNews (Throws e) env w) = localStorage w
   \<and> statusMessage (fetchNews (Throws e) env w) = cross_mark @ '' Error: '' @ thrown_message e"
proof -
  have valid: "success r \<and> response_result r = Some d \<and> isArray (get_prop d ''categories'') \<longrightarrow>
      history (fetchNews (Returns r) env w) = history (fst (saveToHistory env d w))
    \<and> history (fetchNews (Returns r) env w) = take 20 (newItem env d # history w)
    \<and> localStorage (fetchNews (Returns r) env w) = localStorage (fst (saveToHistory env d w))"
  proof
    assume a: "success r \<and> response_result r = Some d \<and> isArray (get_prop d ''categories'')"
    then have "d \<noteq> JNull" using isArray_truthy by auto
    then show "history (fetchNews (Returns r) env w) = history (fst (saveToHistory env d w))
    \<and> history (fetchNews (Returns r) env w) = take 20 (newItem env d # history w)
    \<and> localStorage (fetchNews (Returns r) env w) = localStorage (fst (saveToHistory env d w))"
      using a fetchNews_valid[of r d env w] by (simp add: saveToHistory_history)
  qed
  have invalid: "success r \<and> response_result r = Some d \<and> truthy d
        \<and> \<not> isArray (get_prop d ''categories'') \<longrightarrow>
      history (fetchNews (Returns r) env w) = history w
    \<and> localStorage (fetchNews (Returns r) env w) = localStorage w
    \<and> statusMessage (fetchNews (Returns r) env w) = cross_mark @ '' Invalid response format''"
    by (simp add: fetchNews_invalid)
  have failed: "\<not> success r \<or> response_result r = None
        \<or> (response_result r = Some d \<and> \<not> truthy d) \<longrightarrow>
      history (fetchNews (Returns r) env w) = history w
    \<and> localStorage (fetchNews (Returns r) env w) = localStorage w
    \<and> statusMessage (fetchNews (Returns r) env w)
        = cross_mark @ '' Failed to fetch news: ''
           @ (case error r of None \<Rightarrow> ''Unknown error''
              | Some m \<Rightarrow> if m \<noteq> [] then m else ''Unknown error'')"
  proof
    assume "\<not> success r \<or> response_result r = None
        \<or> (response_result r = Some d \<and> \<not> truthy d)"
    then have "\<not> success r \<or> response_result r = None
             \<or> (\<exists>d. response_result r = Some d \<and> \<not> truthy d)" by blast
    from fetchNews_failed[OF this, of env w]
    show "history (fetchNews (Returns r) env w) = history w
    \<and> localStorage (fetchNews (Returns r) env w) = localStorage w
    \<and> statusMessage (fetchNews (Returns r) env w)
        = cross_mark @ '' Failed to fetch news: ''
           @ (case error r of None \<Rightarrow> ''Unknown error''
              | Some m \<Rightarrow> if m \<noteq> [] then m else ''Unknown error'')" by simp
  qed
  have thrown: "history (fetchNews (Throws e) env w) = history w
   \<and> localStorage (fetchNews (Throws e) env w) = localStorage w
   \<and> statusMessage (fetchNews (Throws e) env w) = cross_mark @ '' Error: '' @ thrown_message e"
    by (simp add: fetchNews_thrown)
  from valid invalid failed thrown show ?thesis by blast
qed

theorem fetchNews_saves_once_witness:
  "history
     (fetchNews
        (Returns \<lparr>success = True,
                   response = Some (JObject [(''result'',
                     JObject [(''digest_date'', JString ''2024-01-01''), (''categories'', JArray []),
                              (''total_stories'', JNumber (Finite 0)),
                              (''slack_posted'', JBool False)])]),
                   error = None\<rparr>)
        \<lparr>id_ms = 1704067200000, locale_date = ''1/1/2024'', ts_ms = 1704067200000,
          setItem_throws = None\<rparr>
        (initial_world Map.empty))
     = [newItem \<lparr>id_ms = 1704067200000, locale_date = ''1/1/2024'', ts_ms = 1704067200000,
                 setItem_throws = None\<rparr>
          (JObject [(''digest_date'', JString ''2024-01-01''), (''categories'', JArray []),
                    (''total_stories'', JNumber (Finite 0)), (''slack_posted'', JBool False)])]
   \<and> history
     (fetchNews
        (Returns \<lparr>success = True, response = Some (JObject [(''result'', JObject [])]),
                   error = None\<rparr>)
        \<lparr>id_ms = 1704067200000, locale_date = ''1/1/2024'', ts_ms = 1704067200000,
          setItem_throws = None\<rparr>
        (initial_world Map.empty)) = []
   \<and> statusMessage
     (fetchNews
        (Returns \<lparr>success = True, response = Some (JObject [(''result'', JObject [])]),
                   error = None\<rparr>)
        \<lparr>id_ms = 1704067200000, locale_date = ''1/1/2024'', ts_ms = 1704067200000,
          setItem_throws = None\<rparr>
        (initial_world Map.empty)) = cross_mark @ '' Invalid response format''
   \<and> history
     (fetchNews
        (Returns \<lparr>success = False, response = None, error = Some ''agent unavailable''\<rparr>)
        \<lparr>id_ms = 1704067200000, locale_date = ''1/1/2024'', ts_ms = 1704067200000,
          setItem_throws = None\<rparr>
        (initial_world Map.empty)) = []
   \<and> statusMessage
     (fetchNews
        (Returns \<lparr>success = False, response = None, error = Some ''agent unavailable''\<rparr>)
        \<lparr>id_ms = 1704067200000, locale_date = ''1/1/2024'', ts_ms = 1704067200000,
          setItem_throws = None\<rparr>
        (initial_world Map.empty)) = cross_mark @ '' Failed to fetch news: agent unavailable''"
proof -
  let ?env = "\<lparr>id_ms = 1704067200000, locale_date = ''1/1/2024'', ts_ms = 1704067200000,
          setItem_throws = None\<rparr>"
  let ?d = "JObject [(''digest_date'', JString ''2024-01-01''), (''categories'', JArray []),
                    (''total_stories'', JNumber (Finite 0)), (''slack_posted'', JBool False)]"
  let ?r1 = "\<lparr>success = True, response = Some (JObject [(''result'', ?d)]), error = None\<rparr>"
  let ?r2 = "\<lparr>success = True, response = Some (JObject [(''result'', JObject [])]),
                   error = None\<rparr>"
  let ?r3 = "\<lparr>success = False, response = None, error = Some ''agent unavailable''\<rparr>"
  let ?w = "initial_world Map.empty"
  have p1: "success ?r1 \<and> response_result ?r1 = Some ?d \<and> isArray (get_prop ?d ''categories'')"
    by (simp add: response_result_def)
  have p2: "success ?r2 \<and> response_result ?r2 = Some (JObject []) \<and> truthy (JObject [])
        \<and> \<not> isArray (get_prop (JObject []) ''categories'')"
    by (simp add: response_result_def)
  have p3: "\<not> success ?r3" by simp
  from p1 fetchNews_saves_once[of ?r1 ?d ?env ?w NonError]
  have "history (fetchNews (Returns ?r1) ?env ?w) = take 20 (newItem ?env ?d # history ?w)"
    by blast
  then have a: "history (fetchNews (Returns ?r1) ?env ?w) = [newItem ?env ?d]"
    by (simp add: initial_world_def)
  from p2 fetchNews_saves_once[of ?r2 "JObject []" ?env ?w NonError]
  have "history (fetchNews (Returns ?r2) ?env ?w) = history ?w
     \<and> statusMessage (fetchNews (Returns ?r2) ?env ?w) = cross_mark @ '' Invalid response format''"
    by blast
  then have b: "history (fetchNews (Returns ?r2) ?env ?w) = []
     \<and> statusMessage (fetchNews (Returns ?r2) ?env ?w) = cross_mark @ '' Invalid response format''"
    by (simp add: initial_world_def)
  from p3 fetchNews_saves_once[of ?r3 JNull ?env ?w NonError]
  have "history (fetchNews (Returns ?r3) ?env ?w) = history ?w
     \<and> statusMessage (fetchNews (Returns ?r3) ?env ?w)
          = cross_mark @ '' Failed to fetch news: ''
           @ (case error ?r3 of None \<Rightarrow> ''Unknown error''
              | Some m \<Rightarrow> if m \<noteq> [] then m else ''Unknown error'')"
    by blast
  then have c: "history (fetchNews (Returns ?r3) ?env ?w) = []
     \<and> statusMessage (fetchNews (Returns ?r3) ?env ?w)
          = cross_mark @ '' Failed to fetch news: agent unavailable''"
    by (simp add: initial_world_def)
  from a b c show ?thesis by blast
qed

text \<open>
  C2 as stated fails: a successful answer with no result at all, or with the result
  \<^verbatim>\<open>null\<close>, has no array-typed \<^verbatim>\<open>categories\<close> and is reported by the failure
  message of the gateway branch, not by "Invalid response format".
\<close>

theorem fetchNews_missing_result:
  "statusMessage
     (fetchNews (Returns \<lparr>success = True, response = Some (JObject []), error = None\<rparr>)
        \<lparr>id_ms = 1704067200000, locale_date = ''1/1/2024'', ts_ms = 1704067200000,
          setItem_throws = None\<rparr>
        (initial_world Map.empty))
     = cross_mark @ '' Failed to fetch news: Unknown error''
   \<and> statusMessage
     (fetchNews (Returns \<lparr>success = True, response = Some (JObject []), error = None\<rparr>)
        \<lparr>id_ms = 1704067200000, locale_date = ''1/1/2024'', ts_ms = 1704067200000,
          setItem_throws = None\<rparr>
        (initial_world Map.empty))
     \<noteq> cross_mark @ '' Invalid response format''
   \<and> statusMessage
     (fetchNews
        (Returns \<lparr>success = True, response = Some (JObject [(''result'', JNull)]), error = None\<rparr>)
        \<lparr>id_ms = 1704067200000, locale_date = ''1/1/2024'', ts_ms = 1704067200000,
          setItem_throws = None\<rparr>
        (initial_world Map.empty))
     = cross_mark @ '' Failed to fetch news: Unknown error''"
  by (simp add: fetchNews_def failed_status_def response_result_def initial_world_def Let_def)

section \<open>Properties of the settings modal\<close>

lemma js_or_cases:
  "js_or v d = x \<longleftrightarrow> (\<exists>y. v = Some y \<and> truthy y \<and> x = y)
      \<or> ((v = None \<or> (\<exists>y. v = Some y \<and> \<not> truthy y)) \<and> x = d)"
  by (auto simp: js_or_def split: option.splits)

text \<open>
  C6: as the code has it, a store with no document, with a document that does not
  parse, or with the document \<^verbatim>\<open>null\<close> leaves every field of the modal as it was, and
  any other document that is not an object (a number, a string, a boolean, an array)
  resets \<^verbatim>\<open>slackChannel\<close>, \<^verbatim>\<open>deliveryTime\<close> and \<^verbatim>\<open>timezone\<close> to their
  defaults and leaves the categories as they were: on a freshly mounted modal, every
  missing or invalid store loads as exactly the default record. From a stored object,
  each of \<^verbatim>\<open>slackChannel\<close>, \<^verbatim>\<open>deliveryTime\<close> and \<^verbatim>\<open>timezone\<close> is its own default
  when the field is absent or falsy and the stored value when that is a non-empty
  string; a stored non-zero number in \<^verbatim>\<open>deliveryTime\<close> is kept, not defaulted; and
  \<^verbatim>\<open>categories\<close> is the modal's current categories when the field is absent or
  falsy and the stored object, taken whole, when it is an object, with no default for
  a nested boolean it lacks. A document holding only \<^verbatim>\<open>{slackChannel: x}\<close> loads on a
  fresh modal as \<open>x\<close> with all other defaults. What a truthy value of another type
  does is left out.
\<close>

theorem loadSettings_fallbacks:
  "(store settings_key = None \<or> store settings_key = Some Unparsable
      \<or> store settings_key = Some (Parses JNull) \<longrightarrow> loadSettings store m = m)
   \<and> (store settings_key = Some (Parses doc) \<and> doc \<noteq> JNull
        \<and> (\<forall>kvs. doc \<noteq> JObject kvs) \<longrightarrow>
        loadSettings store m
          = m\<lparr>slackChannel := JString '''', deliveryTime := JString ''10:00'',
              timezone := JString ''America/New_York''\<rparr>)
   \<and> (store settings_key = None \<or> store settings_key = Some Unparsable
        \<or> (store settings_key = Some (Parses doc) \<and> (\<forall>kvs. doc \<noteq> JObject kvs)) \<longrightarrow>
        loadSettings store initial_modal = with_settings default_settings initial_modal)
   \<and> (store settings_key = Some (Parses (JObject kvs)) \<longrightarrow>
        (\<not> (\<exists>v. map_of kvs ''slackChannel'' = Some v \<and> truthy v) \<longrightarrow>
           slackChannel (loadSettings store m) = JString '''')
      \<and> (map_of kvs ''slackChannel'' = Some (JString c) \<longrightarrow>
           slackChannel (loadSettings store m) = JString c)
      \<and> (\<not> (\<exists>v. map_of kvs ''deliveryTime'' = Some v \<and> truthy v) \<longrightarrow>
           deliveryTime (loadSettings store m) = JString ''10:00'')
      \<and> (map_of kvs ''deliveryTime'' = Some (JString d) \<and> d \<noteq> [] \<longrightarrow>
           deliveryTime (loadSettings store m) = JString d)
      \<and> (map_of kvs ''deliveryTime'' = Some (JNumber (Finite q)) \<and> q \<noteq> 0 \<longrightarrow>
           deliveryTime (loadSettings store m) = JNumber (Finite q))
      \<and> (\<not> (\<exists>v. map_of kvs ''timezone'' = Some v \<and> truthy v) \<longrightarrow>
           timezone (loadSettings store m) = JString ''America/New_York'')
      \<and> (map_of kvs ''timezone'' = Some (JString z) \<and> z \<noteq> [] \<longrightarrow>
           timezone (loadSettings store m) = JString z)
      \<and> (\<not> (\<exists>v. map_of kvs ''categories'' = Some v \<and> truthy v) \<longrightarrow>
           categories (loadSettings store m) = categories m)
      \<and> (map_of kvs ''categories'' = Some (JObject cs) \<longrightarrow>
           categories (loadSettings store m) = JObject cs))
   \<and> (store settings_key = Some (Parses (JObject [(''slackChannel'', JString x)])) \<longrightarrow>
        loadSettings store initial_modal
          = with_settings (default_settings\<lparr>channel := x\<rparr>) initial_modal)"
proof -
  have unchanged: "store settings_key = None \<or> store settings_key = Some Unparsable
      \<or> store settings_key = Some (Parses JNull) \<longrightarrow> loadSettings store m = m"
    by (auto simp: loadSettings_def)
  have not_object: "get_prop doc k = None" if "\<forall>kvs. doc \<noteq> JObject kvs" for k
    using that by (cases doc) simp_all
  have reset: "store settings_key = Some (Parses doc) \<and> doc \<noteq> JNull
        \<and> (\<forall>kvs. doc \<noteq> JObject kvs) \<longrightarrow>
        loadSettings store m
          = m\<lparr>slackChannel := JString '''', deliveryTime := JString ''10:00'',
              timezone := JString ''America/New_York''\<rparr>"
    by (auto simp: loadSettings_def js_or_def not_object)
  have fresh: "store settings_key = None \<or> store settings_key = Some Unparsable
        \<or> (store settings_key = Some (Parses doc) \<and> (\<forall>kvs. doc \<noteq> JObject kvs)) \<longrightarrow>
        loadSettings store initial_modal = with_settings default_settings initial_modal"
    by (auto simp: loadSettings_def js_or_def not_object initial_modal_def with_settings_def
        default_settings_def)
  have fields: "store settings_key = Some (Parses (JObject kvs)) \<longrightarrow>
        (\<not> (\<exists>v. map_of kvs ''slackChannel'' = Some v \<and> truthy v) \<longrightarrow>
           slackChannel (loadSettings store m) = JString '''')
      \<and> (map_of kvs ''slackChannel'' = Some (JString c) \<longrightarrow>
           slackChannel (loadSettings store m) = JString c)
      \<and> (\<not> (\<exists>v. map_of kvs ''deliveryTime'' = Some v \<and> truthy v) \<longrightarrow>
           deliveryTime (loadSettings store m) = JString ''10:00'')
      \<and> (map_of kvs ''deliveryTime'' = Some (JString d) \<and> d \<noteq> [] \<longrightarrow>
           deliveryTime (loadSettings store m) = JString d)
      \<and> (map_of kvs ''deliveryTime'' = Some (JNumber (Finite q)) \<and> q \<noteq> 0 \<longrightarrow>
           deliveryTime (loadSettings store m) = JNumber (Finite q))
      \<and> (\<not> (\<exists>v. map_of kvs ''timezone'' = Some v \<and> truthy v) \<longrightarrow>
           timezone (loadSettings store m) = JString ''America/New_York'')
      \<and> (map_of kvs ''timezone'' = Some (JString z) \<and> z \<noteq> [] \<longrightarrow>
           timezone (loadSettings store m) = JString z)
      \<and> (\<not> (\<exists>v. map_of kvs ''categories'' = Some v \<and> truthy v) \<longrightarrow>
           categories (loadSettings store m) = categories m)
      \<and> (map_of kvs ''categories'' = Some (JObject cs) \<longrightarrow>
           categories (loadSettings store m) = JObject cs)"
    by (auto simp: loadSettings_def js_or_def split: option.splits)
  have only_channel:
    "store settings_key = Some (Parses (JObject [(''slackChannel'', JString x)])) \<longrightarrow>
        loadSettings store initial_modal
          = with_settings (default_settings\<lparr>channel := x\<rparr>) initial_modal"
    by (auto simp: loadSettings_def js_or_def initial_modal_def with_settings_def
        default_settings_def)
  from unchanged reset fresh fields only_channel show ?thesis by blast
qed

theorem loadSettings_fallbacks_witness:
  "loadSettings Map.empty initial_modal = with_settings default_settings initial_modal
   \<and> loadSettings (Map.empty(settings_key \<mapsto> Unparsable)) initial_modal
      = with_settings default_settings initial_modal
   \<and> loadSettings (Map.empty(settings_key \<mapsto> Parses (JNumber (Finite 7)))) initial_modal
      = with_settings default_settings initial_modal
   \<and> loadSettings (Map.empty(settings_key \<mapsto> Parses (JNumber (Finite 7))))
        (initial_modal\<lparr>slackChannel := JString ''C01234567890''\<rparr>)
      = initial_modal
   \<and> loadSettings Map.empty (initial_modal\<lparr>slackChannel := JString ''C01234567890''\<rparr>)
      = initial_modal\<lparr>slackChannel := JString ''C01234567890''\<rparr>
   \<and> loadSettings (Map.empty(settings_key \<mapsto> Parses (JObject [(''slackChannel'', JString ''X'')])))
        initial_modal
      = with_settings (default_settings\<lparr>channel := ''X''\<rparr>) initial_modal
   \<and> categories (loadSettings
        (Map.empty(settings_key \<mapsto>
           Parses (JObject [(''categories'', JObject [(''breaking'', JBool False)])])))
        initial_modal) = JObject [(''breaking'', JBool False)]
   \<and> deliveryTime (loadSettings
        (Map.empty(settings_key \<mapsto> Parses (JObject [(''deliveryTime'', JNumber (Finite 42))])))
        initial_modal) = JNumber (Finite 42)
   \<and> timezone (loadSettings
        (Map.empty(settings_key \<mapsto> Parses (JObject [(''deliveryTime'', JNumber (Finite 42))])))
        initial_modal) = JString ''America/New_York''"
proof -
  let ?edited = "initial_modal\<lparr>slackChannel := JString ''C01234567890''\<rparr>"
  let ?seven = "Map.empty(settings_key \<mapsto> Parses (JNumber (Finite 7)))"
  let ?x = "Map.empty(settings_key \<mapsto> Parses (JObject [(''slackChannel'', JString ''X'')]))"
  let ?ckvs = "[(''categories'', JObject [(''breaking'', JBool False)])]"
  let ?cats = "Map.empty(settings_key \<mapsto> Parses (JObject ?ckvs))"
  let ?tkvs = "[(''deliveryTime'', JNumber (Finite 42))]"
  let ?time = "Map.empty(settings_key \<mapsto> Parses (JObject ?tkvs))"
  have none: "Map.empty settings_key = (None :: item option)" by simp
  have unp: "(Map.empty(settings_key \<mapsto> Unparsable)) settings_key = Some Unparsable" by simp
  have seven: "?seven settings_key = Some (Parses (JNumber (Finite 7)))
      \<and> JNumber (Finite 7) \<noteq> JNull \<and> (\<forall>kvs. JNumber (Finite 7) \<noteq> JObject kvs)" by simp
  have x: "?x settings_key = Some (Parses (JObject [(''slackChannel'', JString ''X'')]))" by simp
  have cats: "?cats settings_key = Some (Parses (JObject ?ckvs))
      \<and> map_of ?ckvs ''categories'' = Some (JObject [(''breaking'', JBool False)])" by simp
  have time: "?time settings_key = Some (Parses (JObject ?tkvs))
      \<and> map_of ?tkvs ''deliveryTime'' = Some (JNumber (Finite 42)) \<and> (42 :: rat) \<noteq> 0
      \<and> \<not> (\<exists>v. map_of ?tkvs ''timezone'' = Some v \<and> truthy v)" by simp
  have a: "loadSettings Map.empty initial_modal = with_settings default_settings initial_modal"
    using none
      loadSettings_fallbacks[of Map.empty initial_modal JNull "[]" "[]" "[]" 0 "[]" "[]" "[]"]
    by blast
  have b: "loadSettings (Map.empty(settings_key \<mapsto> Unparsable)) initial_modal
      = with_settings default_settings initial_modal"
    using unp
      loadSettings_fallbacks[of "Map.empty(settings_key \<mapsto> Unparsable)" initial_modal
        JNull "[]" "[]" "[]" 0 "[]" "[]" "[]"]
    by blast
  have c: "loadSettings ?seven initial_modal = with_settings default_settings initial_modal"
    using seven
      loadSettings_fallbacks[of ?seven initial_modal "JNumber (Finite 7)"
        "[]" "[]" "[]" 0 "[]" "[]" "[]"]
    by blast
  have "loadSettings ?seven ?edited
      = ?edited\<lparr>slackChannel := JString '''', deliveryTime := JString ''10:00'',
              timezone := JString ''America/New_York''\<rparr>"
    using seven
      loadSettings_fallbacks[of ?seven ?edited "JNumber (Finite 7)"
        "[]" "[]" "[]" 0 "[]" "[]" "[]"]
    by blast
  then have d: "loadSettings ?seven ?edited = initial_modal"
    by (simp add: initial_modal_def)
  have e: "loadSettings Map.empty ?edited = ?edited"
    using none
      loadSettings_fallbacks[of Map.empty ?edited JNull "[]" "[]" "[]" 0 "[]" "[]" "[]"]
    by blast
  have f: "loadSettings ?x initial_modal
      = with_settings (default_settings\<lparr>channel := ''X''\<rparr>) initial_modal"
    using x
      loadSettings_fallbacks[of ?x initial_modal JNull "[]" "[]" "[]" 0 "[]" "[]" "''X''"]
    by blast
  have g: "categories (loadSettings ?cats initial_modal) = JObject [(''breaking'', JBool False)]"
    using cats
      loadSettings_fallbacks[of ?cats initial_modal JNull ?ckvs "[]" "[]" 0 "[]"
        "[(''breaking'', JBool False)]" "[]"]
    by blast
  have h: "deliveryTime (loadSettings ?time initial_modal) = JNumber (Finite 42)
     \<and> timezone (loadSettings ?time initial_modal) = JString ''America/New_York''"
    using time
      loadSettings_fallbacks[of ?time initial_modal JNull ?tkvs "[]" "[]" 42 "[]" "[]" "[]"]
    by blast
  from a b c d e f g h show ?thesis by blast
qed

text \<open>
  C6 as stated fails in three ways. From the stored document
  \<^verbatim>\<open>{categories: {breaking: false}}\<close> the modal's categories are that object alone,
  with no \<^verbatim>\<open>research\<close>, \<^verbatim>\<open>trends\<close> or \<^verbatim>\<open>startups\<close>, where loading field by
  field would give each of the three its default \<open>True\<close>. From a missing document, a
  modal whose channel the user has edited and not saved keeps the edit, where the
  default is the empty string. From \<^verbatim>\<open>{deliveryTime: 42}\<close> the delivery time is the
  number 42, where the default is "10:00".
\<close>

theorem loadSettings_differs_from_spec:
  "get_prop (categories (loadSettings
      (Map.empty(settings_key \<mapsto>
         Parses (JObject [(''categories'', JObject [(''breaking'', JBool False)])])))
      initial_modal)) ''research'' = None
   \<and> research (spec_loadSettings
          (Map.empty(settings_key \<mapsto>
             Parses (JObject [(''categories'', JObject [(''breaking'', JBool False)])])))) = True
   \<and> loadSettings
      (Map.empty(settings_key \<mapsto>
         Parses (JObject [(''categories'', JObject [(''breaking'', JBool False)])])))
      initial_modal
    \<noteq> with_settings
        (spec_loadSettings
          (Map.empty(settings_key \<mapsto>
             Parses (JObject [(''categories'', JObject [(''breaking'', JBool False)])]))))
        initial_modal
   \<and> slackChannel
         (loadSettings Map.empty (initial_modal\<lparr>slackChannel := JString ''C01234567890''\<rparr>))
       = JString ''C01234567890''
   \<and> channel (spec_loadSettings Map.empty) = []
   \<and> deliveryTime (loadSettings
          (Map.empty(settings_key \<mapsto>
             Parses (JObject [(''deliveryTime'', JNumber (Finite 42))])))
          initial_modal)
       = JNumber (Finite 42)
   \<and> delivery (spec_loadSettings
          (Map.empty(settings_key \<mapsto>
             Parses (JObject [(''deliveryTime'', JNumber (Finite 42))]))))
       = ''10:00''"
  by (simp add: loadSettings_def spec_loadSettings_def initial_modal_def with_settings_def
      js_or_def spec_bool_field_def spec_string_field_def default_settings_def Let_def)

lemma well_formed_nonempty: "well_formed s \<Longrightarrow> delivery s \<noteq> [] \<and> zone s \<noteq> []"
  by (auto simp: well_formed_def split: list.splits)

text \<open>
  C7: for every well-formed settings record, saving the modal that holds it
  completes when the store accepts the write, and loading from the store it leaves, into
  any modal, gives that record back in the four settings fields.
\<close>

theorem save_then_load:
  "well_formed s \<Longrightarrow>
     snd (handleSave None (with_settings s m) store) = None
     \<and> loadSettings (snd (fst (handleSave None (with_settings s m) store))) m0
         = with_settings s m0"
proof -
  assume wf: "well_formed s"
  then have ne: "delivery s \<noteq> []" "zone s \<noteq> []" using well_formed_nonempty by blast+
  show ?thesis
    using ne
    by (simp add: handleSave_def with_settings_def loadSettings_def js_or_def Let_def)
qed

theorem save_then_load_witness:
  "loadSettings
     (snd (fst (handleSave None
        (with_settings \<lparr>channel = ''C01234567890'', delivery = ''08:30'', zone = ''America/Chicago'',
             breaking = True, research = False, trends = True, startups = False\<rparr> initial_modal)
        Map.empty)))
     initial_modal
   = with_settings \<lparr>channel = ''C01234567890'', delivery = ''08:30'', zone = ''America/Chicago'',
             breaking = True, research = False, trends = True, startups = False\<rparr> initial_modal"
proof -
  have wf: "well_formed \<lparr>channel = ''C01234567890'', delivery = ''08:30'', zone = ''America/Chicago'',
             breaking = True, research = False, trends = True, startups = False\<rparr>"
    by (simp add: well_formed_def is_digit_def)
  from save_then_load[OF wf, of initial_modal Map.empty initial_modal] show ?thesis by simp
qed

section \<open>Properties of the cron humanizer\<close>

lemma parse_cron_field_count:
  "length (split_on CHR '' '' expr) \<noteq> 5 \<Longrightarrow> parse_cron expr = None"
  by (auto simp: parse_cron_def split: list.splits)

lemma parse_cron_bad_token:
  "split_on CHR '' '' expr = [f1, f2, f3, f4, f5] \<Longrightarrow>
     parse_field 0 59 f1 = None \<or> parse_field 0 23 f2 = None \<or> parse_field 1 31 f3 = None
       \<or> parse_field 1 12 f4 = None \<or> parse_field 0 7 f5 = None \<Longrightarrow>
     parse_cron expr = None"
  by (auto simp: parse_cron_def split: option.splits)

text \<open>
  C8: \<^verbatim>\<open>cronToHuman\<close> is a total function from strings to strings, and an
  expression that does not parse as five fields comes back unchanged: one that fails to
  parse for any reason, one whose field count is not five in particular, and the empty
  string.
\<close>

theorem cronToHuman_degrades:
  "(parse_cron expr = None \<longrightarrow> cronToHuman expr = expr)
   \<and> (length (split_on CHR '' '' expr) \<noteq> 5 \<longrightarrow> cronToHuman expr = expr)
   \<and> cronToHuman [] = []"
  using parse_cron_field_count[of expr]
  by (auto simp: cronToHuman_def parse_cron_def)

theorem cronToHuman_degrades_witness:
  "cronToHuman ''every day at ten'' = ''every day at ten''
   \<and> cronToHuman ''0 10 * *'' = ''0 10 * *''
   \<and> cronToHuman ''61 10 * * *'' = ''61 10 * * *''
   \<and> cronToHuman ''0 ten * * *'' = ''0 ten * * *''"
proof -
  have a: "length (split_on CHR '' '' ''every day at ten'') \<noteq> 5" by code_simp
  have b: "length (split_on CHR '' '' ''0 10 * *'') \<noteq> 5" by code_simp
  have c: "parse_cron ''61 10 * * *'' = None" by code_simp
  have d: "parse_cron ''0 ten * * *'' = None" by code_simp
  from a b c d cronToHuman_degrades[of "''every day at ten''"] cronToHuman_degrades[of "''0 10 * *''"]
    cronToHuman_degrades[of "''61 10 * * *''"] cronToHuman_degrades[of "''0 ten * * *''"]
  show ?thesis by blast
qed

lemma cronToHuman_daily_example: "cronToHuman ''0 10 * * *'' = ''Daily at 10:00 AM''"
  by code_simp

end
